theory Spec2Isabelle
  imports Main
begin

section \<open>The action performer lambda (hmalib/lambdas/actions/action_performer.py)\<close>

text \<open>
  A shallow embedding of \<^verbatim>\<open>action_performer.py\<close>: the cached process
  initialisation \<^verbatim>\<open>lambda_init_once\<close>, the dispatch
  \<^verbatim>\<open>perform_label_action\<close> and the intake loop
  \<^verbatim>\<open>lambda_handler\<close>.

  Python exceptions are values: every function of the module maps a process state to an
  outcome (\<open>Inl\<close> the exception raised, \<open>Inr\<close> the value returned) paired
  with the state it leaves behind, since a raise does not undo the effects that came
  before it.
\<close>

subsection \<open>Data model\<close>

text \<open>
  \<open>KeyError k\<close> is the exception of a failed dictionary subscript
  (\<^verbatim>\<open>os.environ[k]\<close>, \<^verbatim>\<open>event[k]\<close>); \<open>Raised c\<close> is an
  exception of class \<open>c\<close> raised by a collaborator that is imported by the module
  (a deserialiser, an action performer, the table).
\<close>

datatype py_exception = KeyError string | Raised string

type_synonym timestamp = nat

text \<open>\<^verbatim>\<open>BankedSignal(signal_id, bank_id, bank_name)\<close>, built positionally in the module's main block.\<close>

record banked_signal =
  signal_id :: string
  bank_id :: string
  bank_name :: string

text \<open>
  \<^verbatim>\<open>MatchMessage(content_key, matched_hash, matching_banked_signals)\<close>. The module
  reads \<^verbatim>\<open>content_key\<close> and passes \<^verbatim>\<open>matching_banked_signals\<close> by keyword;
  the second positional field carries the matched hash.
\<close>

record match_message =
  content_key :: string
  matched_hash :: string
  matching_banked_signals :: "banked_signal list"

text \<open>\<^verbatim>\<open>ActionLabel("EnqueForReview")\<close>; the module reads its \<^verbatim>\<open>.value\<close>.\<close>

datatype ActionLabel = ActionLabel (label_value: string)

text \<open>
  \<^verbatim>\<open>ActionMessage\<close> is a subclass of \<^verbatim>\<open>MatchMessage\<close>: the module passes an
  \<^verbatim>\<open>ActionMessage\<close> where a \<^verbatim>\<open>MatchMessage\<close> is annotated. The record
  extension keeps that: an \<open>'r action_message\<close> is a \<open>'m match_message_scheme\<close>.
  The rule model \<open>'r\<close> is not fixed by the module; it only calls
  \<^verbatim>\<open>rule.to_aws_json()\<close> on each rule.
\<close>

record 'r action_message = match_message +
  action_label :: ActionLabel
  action_rules :: "'r list"

text \<open>
  \<^verbatim>\<open>ActionEvent(content_id, performed_at, action_label, action_rules)\<close>, the audit row.
  Its label and rules fields are prefixed here, the names being taken by the message's.
\<close>

record action_event =
  content_id :: string
  performed_at :: timestamp
  event_action_label :: string
  event_action_rules :: "string list"

text \<open>
  An action performer: \<^verbatim>\<open>perform_action(match_message)\<close> acts on the world outside
  the process (\<open>'x\<close>) and may raise.
\<close>

type_synonym ('m, 'x) action_performer = "'m \<Rightarrow> 'x \<Rightarrow> py_exception option \<times> 'x"

text \<open>
  The state of the process and of what it writes to.
  \<^item> \<open>environ\<close>: \<^verbatim>\<open>os.environ\<close>;
  \<^item> \<open>init_cached\<close>: the \<^verbatim>\<open>lru_cache\<close> of \<^verbatim>\<open>lambda_init_once\<close> holds a result;
  \<^item> \<open>initialize_calls\<close>: the arguments of the calls of \<^verbatim>\<open>HMAConfig.initialize\<close>, in order;
  \<^item> \<open>perform_action_calls\<close>: the calls of \<^verbatim>\<open>perform_action\<close>, in order, each with the
    label value that resolved the performer and the argument it was given;
  \<^item> \<open>records_table\<close>: the rows of the DynamoDB table, in the order written;
  \<^item> \<open>ext\<close>: everything else (the configuration store, the clock, the endpoints the
    performers talk to).
\<close>

record ('m, 'x) process =
  environ :: "string \<rightharpoonup> string"
  init_cached :: bool
  initialize_calls :: "string list"
  perform_action_calls :: "(string \<times> 'm) list"
  records_table :: "action_event list"
  ext :: 'x

text \<open>
  The collaborators that the module imports from the rest of \<^verbatim>\<open>hmalib\<close> and from the
  libraries are not among the sources: they are parameters of the model.
  \<^item> \<open>from_aws_json\<close>: \<^verbatim>\<open>ActionMessage.from_aws_json\<close>, which may raise;
  \<^item> \<open>rule_to_aws_json\<close>: \<^verbatim>\<open>rule.to_aws_json()\<close>;
  \<^item> \<open>HMAConfig_initialize\<close>: \<^verbatim>\<open>config.HMAConfig.initialize(config_table)\<close>, a change
    of the configuration that does not raise (the specification names no failure of the
    configuration load);
  \<^item> \<open>ActionPerformer_get\<close>: \<^verbatim>\<open>ActionPerformer.get(name)\<close>, the registry of the
    specification: a lookup with no effect, \<open>None\<close> where no performer is registered for
    the name (absence is a result, not an error);
  \<^item> \<open>put_item_error\<close>: whether the table refuses a row (\<open>None\<close>: it takes it);
  \<^item> \<open>datetime_now\<close>: \<^verbatim>\<open>datetime.datetime.now()\<close>, the time the world outside shows.
\<close>

record ('r, 'x) deps =
  from_aws_json :: "string \<Rightarrow> py_exception + 'r action_message"
  rule_to_aws_json :: "'r \<Rightarrow> string"
  HMAConfig_initialize :: "string \<Rightarrow> 'x \<Rightarrow> 'x"
  ActionPerformer_get :: "string \<Rightarrow> 'x \<Rightarrow> ('r action_message, 'x) action_performer option"
  put_item_error :: "action_event \<Rightarrow> 'x \<Rightarrow> py_exception option"
  datetime_now :: "'x \<Rightarrow> timestamp"

subsection \<open>lambda\_init\_once\<close>

text \<open>
  The body of \<^verbatim>\<open>lambda_init_once\<close>:
  \<^verbatim>\<open>config_table = os.environ["CONFIG_TABLE_NAME"]; config.HMAConfig.initialize(config_table)\<close>.
\<close>

definition lambda_init_once_body ::
  "('r, 'x) deps \<Rightarrow> ('m, 'x) process \<Rightarrow> (py_exception + unit) \<times> ('m, 'x) process" where
  "lambda_init_once_body d w =
     (case environ w ''CONFIG_TABLE_NAME'' of
        None \<Rightarrow> (Inl (KeyError ''CONFIG_TABLE_NAME''), w)
      | Some config_table \<Rightarrow>
          (Inr (),
           w\<lparr>initialize_calls := initialize_calls w @ [config_table],
             ext := HMAConfig_initialize d config_table (ext w)\<rparr>))"

text \<open>
  \<^verbatim>\<open>@lru_cache(maxsize=1)\<close> on a function of no argument: a call that finds a cached
  result returns it and does not run the body; a call that runs the body caches the
  result when the body returns, and caches nothing when it raises.
\<close>

definition lambda_init_once ::
  "('r, 'x) deps \<Rightarrow> ('m, 'x) process \<Rightarrow> (py_exception + unit) \<times> ('m, 'x) process" where
  "lambda_init_once d w =
     (if init_cached w then (Inr (), w)
      else (case lambda_init_once_body d w of
              (Inl e, w') \<Rightarrow> (Inl e, w')
            | (Inr u, w') \<Rightarrow> (Inr u, w'\<lparr>init_cached := True\<rparr>)))"

subsection \<open>perform\_label\_action\<close>

text \<open>
  \<^verbatim>\<open>
  def perform_label_action(match_message: MatchMessage, action_label: ActionLabel) -> bool:
      if action_performer := ActionPerformer.get(action_label.value):
          action_performer.perform_action(match_message)
          return True
      return False
  \<close>
  The argument is handed to the performer as it came. The first parameter is the
  module's \<^verbatim>\<open>ActionPerformer.get\<close>.
\<close>

definition perform_label_action ::
  "(string \<Rightarrow> 'x \<Rightarrow> ('m match_message_scheme, 'x) action_performer option) \<Rightarrow>
   'm match_message_scheme \<Rightarrow> ActionLabel \<Rightarrow> ('m match_message_scheme, 'x) process \<Rightarrow>
   (py_exception + bool) \<times> ('m match_message_scheme, 'x) process" where
  "perform_label_action get match_message label w =
     (case get (label_value label) (ext w) of
        Some action_performer \<Rightarrow>
          (let w1 = w\<lparr>perform_action_calls :=
                        perform_action_calls w @ [(label_value label, match_message)]\<rparr>
           in (case action_performer match_message (ext w) of
                 (Some e, x') \<Rightarrow> (Inl e, w1\<lparr>ext := x'\<rparr>)
               | (None, x') \<Rightarrow> (Inr True, w1\<lparr>ext := x'\<rparr>)))
      | None \<Rightarrow> (Inr False, w))"

subsection \<open>lambda\_handler\<close>

text \<open>An SQS record and the event are dictionaries; a missing key raises \<^verbatim>\<open>KeyError\<close>.\<close>

type_synonym sqs_record = "string \<rightharpoonup> string"

type_synonym event = "string \<rightharpoonup> sqs_record list"

text \<open>
  The \<^verbatim>\<open>ActionEvent(...)\<close> that the loop builds from a message, at the time read from
  the clock.
\<close>

definition action_event_of ::
  "('r, 'x) deps \<Rightarrow> 'r action_message \<Rightarrow> timestamp \<Rightarrow> action_event" where
  "action_event_of d action_message t =
     \<lparr>content_id = content_key action_message,
      performed_at = t,
      event_action_label = label_value (action_label action_message),
      event_action_rules = map (rule_to_aws_json d) (action_rules action_message)\<rparr>"

text \<open>
  Modelled from the spec: \<^verbatim>\<open>ActionEvent.write_to_table(records_table)\<close> is defined in
  \<^verbatim>\<open>hmalib.common.content_models\<close>, which is not among the sources. The specification
  has the table as an append-only sink with no uniqueness constraint, and a failed write
  surfaced to the caller and not retried: one row appended to the table, or the table's
  exception raised and no row.
\<close>

definition write_to_table ::
  "('r, 'x) deps \<Rightarrow> action_event \<Rightarrow> ('m, 'x) process \<Rightarrow> (py_exception + unit) \<times> ('m, 'x) process" where
  "write_to_table d ev w =
     (case put_item_error d ev (ext w) of
        Some e \<Rightarrow> (Inl e, w)
      | None \<Rightarrow> (Inr (), w\<lparr>records_table := records_table w @ [ev]\<rparr>))"

text \<open>
  \<^verbatim>\<open>ActionMessage.from_aws_json(sqs_record["body"])\<close>: the subscript, then the
  deserialiser; either may raise.
\<close>

definition message_of :: "('r, 'x) deps \<Rightarrow> sqs_record \<Rightarrow> py_exception + 'r action_message" where
  "message_of d sqs_record =
     (case sqs_record ''body'' of
        None \<Rightarrow> Inl (KeyError ''body'')
      | Some body \<Rightarrow> from_aws_json d body)"

text \<open>
  The body of the \<^verbatim>\<open>for\<close> loop, for one record: deserialise, dispatch (the result
  of \<^verbatim>\<open>perform_label_action\<close> is dropped), build the event with the time read then,
  write it.
\<close>

definition handle_record ::
  "('r, 'x) deps \<Rightarrow> sqs_record \<Rightarrow> ('r action_message, 'x) process \<Rightarrow>
   (py_exception + unit) \<times> ('r action_message, 'x) process" where
  "handle_record d sqs_record w =
     (case message_of d sqs_record of
        Inl e \<Rightarrow> (Inl e, w)
      | Inr action_message \<Rightarrow>
          (case perform_label_action (ActionPerformer_get d) action_message
                  (action_label action_message) w of
             (Inl e, w1) \<Rightarrow> (Inl e, w1)
           | (Inr found, w1) \<Rightarrow>
               write_to_table d
                 (action_event_of d action_message (datetime_now d (ext w1))) w1))"

text \<open>The \<^verbatim>\<open>for sqs_record in event["Records"]\<close> loop: an exception leaves it.\<close>

fun for_records ::
  "('r, 'x) deps \<Rightarrow> sqs_record list \<Rightarrow> ('r action_message, 'x) process \<Rightarrow>
   (py_exception + unit) \<times> ('r action_message, 'x) process" where
  "for_records d [] w = (Inr (), w)"
| "for_records d (sqs_record # rest) w =
     (case handle_record d sqs_record w of
        (Inl e, w') \<Rightarrow> (Inl e, w')
      | (Inr u, w') \<Rightarrow> for_records d rest w')"

text \<open>
  \<^verbatim>\<open>lambda_handler(event, context)\<close>: initialise, loop over
  \<^verbatim>\<open>event["Records"]\<close>, return \<^verbatim>\<open>{"action_performed": "true"}\<close>. The table
  handle \<^verbatim>\<open>dynamodb.Table(DYNAMODB_TABLE)\<close> and the log line have no effect on the
  state modelled; \<^verbatim>\<open>context\<close> is not used.
\<close>

definition lambda_handler ::
  "('r, 'x) deps \<Rightarrow> event \<Rightarrow> ('r action_message, 'x) process \<Rightarrow>
   (py_exception + (string \<times> string) list) \<times> ('r action_message, 'x) process" where
  "lambda_handler d event w =
     (case lambda_init_once d w of
        (Inl e, w0) \<Rightarrow> (Inl e, w0)
      | (Inr u, w0) \<Rightarrow>
          (case event ''Records'' of
             None \<Rightarrow> (Inl (KeyError ''Records''), w0)
           | Some records \<Rightarrow>
               (case for_records d records w0 of
                  (Inl e, w') \<Rightarrow> (Inl e, w')
                | (Inr u', w') \<Rightarrow> (Inr [(''action_performed'', ''true'')], w'))))"

text \<open>
  The labels that resolve to a performer in a state: the registry as the dispatch sees it.
\<close>

definition resolvable :: "('r, 'x) deps \<Rightarrow> ('m, 'x) process \<Rightarrow> string \<Rightarrow> bool" where
  "resolvable d w name = (case ActionPerformer_get d name (ext w) of None \<Rightarrow> False | Some p \<Rightarrow> True)"

text \<open>The state after \<open>n\<close> calls of \<^verbatim>\<open>lambda_init_once()\<close> in a row.\<close>

primrec lambda_init_once_times ::
  "('r, 'x) deps \<Rightarrow> nat \<Rightarrow> ('m, 'x) process \<Rightarrow> ('m, 'x) process" where
  "lambda_init_once_times d 0 w = w"
| "lambda_init_once_times d (Suc n) w = snd (lambda_init_once d (lambda_init_once_times d n w))"

subsection \<open>The wire format of an action message\<close>

text \<open>
  Modelled from the spec: \<^verbatim>\<open>ActionMessage.to_aws_json\<close> and
  \<^verbatim>\<open>ActionMessage.from_aws_json\<close> live in \<^verbatim>\<open>hmalib.common.message_models\<close>, which
  is not among the sources. The specification (External interfaces) gives the body as a text
  that encodes the fields \<^verbatim>\<open>content_key\<close>, \<^verbatim>\<open>matched_hash\<close>,
  \<^verbatim>\<open>matching_banked_signals\<close> (an array of \<^verbatim>\<open>{signal_id, bank_id, bank_name}\<close>),
  \<^verbatim>\<open>action_label\<close> (a string) and \<^verbatim>\<open>action_rules\<close> (an array of rule blobs, each
  serialisable and deserialisable on its own); the method names give JSON. The model is a
  JSON document of strings, arrays and objects, written as text and parsed back.
\<close>

datatype json = JString string | JArray "json list" | JObject "(string \<times> json) list"

text \<open>
  Writing: a string between double quotes, a double quote or a backslash in it preceded
  by a backslash, every other character as it is; items separated by a comma and a
  space, a key and its value by a colon and a space.
\<close>

fun escape :: "string \<Rightarrow> string" where
  "escape [] = []"
| "escape (c # cs) = (if c = CHR 0x22 \<or> c = CHR 0x5C then CHR 0x5C # c # escape cs else c # escape cs)"

definition quoted :: "string \<Rightarrow> string" where
  "quoted s = CHR 0x22 # escape s @ [CHR 0x22]"

fun join :: "string list \<Rightarrow> string" where
  "join [] = []"
| "join [x] = x"
| "join (x # y # ys) = x @ '', '' @ join (y # ys)"

fun json_dumps :: "json \<Rightarrow> string" where
  "json_dumps (JString s) = quoted s"
| "json_dumps (JArray xs) = ''['' @ join (map json_dumps xs) @ '']''"
| "json_dumps (JObject kvs) =
     ''{'' @ join (map (\<lambda>(k, v). quoted k @ '': '' @ json_dumps v) kvs) @ ''}''"

text \<open>
  Reading. \<open>parse_string\<close> reads a string after its opening quote, up to the closing
  one. \<open>parse_value\<close> reads one value and returns it with the text that follows;
  \<open>parse_elements\<close> and \<open>parse_members\<close> read what an array and an object hold, up to
  the closing bracket. The first argument bounds the depth of the calls; the length of
  the text is enough of it. A text that is not in the layout written above is refused.
\<close>

fun parse_string :: "string \<Rightarrow> (string \<times> string) option" where
  "parse_string [] = None"
| "parse_string (c # cs) =
     (if c = CHR 0x22 then Some ([], cs)
      else if c = CHR 0x5C then
        (case cs of
           [] \<Rightarrow> None
         | e # cs' \<Rightarrow>
             if e = CHR 0x22 \<or> e = CHR 0x5C
             then (case parse_string cs' of None \<Rightarrow> None | Some (s, r) \<Rightarrow> Some (e # s, r))
             else None)
      else (case parse_string cs of None \<Rightarrow> None | Some (s, r) \<Rightarrow> Some (c # s, r)))"

fun parse_value :: "nat \<Rightarrow> string \<Rightarrow> (json \<times> string) option"
  and parse_elements :: "nat \<Rightarrow> string \<Rightarrow> (json list \<times> string) option"
  and parse_members :: "nat \<Rightarrow> string \<Rightarrow> ((string \<times> json) list \<times> string) option" where
  "parse_value 0 s = None"
| "parse_value (Suc n) [] = None"
| "parse_value (Suc n) (c # cs) =
     (if c = CHR 0x22 then
        (case parse_string cs of None \<Rightarrow> None | Some (s, r) \<Rightarrow> Some (JString s, r))
      else if c = CHR ''['' then
        (case cs of
           [] \<Rightarrow> None
         | c' # cs' \<Rightarrow>
             if c' = CHR '']'' then Some (JArray [], cs')
             else (case parse_elements n cs of None \<Rightarrow> None | Some (vs, r) \<Rightarrow> Some (JArray vs, r)))
      else if c = CHR ''{'' then
        (case cs of
           [] \<Rightarrow> None
         | c' # cs' \<Rightarrow>
             if c' = CHR ''}'' then Some (JObject [], cs')
             else (case parse_members n cs of None \<Rightarrow> None | Some (kvs, r) \<Rightarrow> Some (JObject kvs, r)))
      else None)"
| "parse_elements 0 s = None"
| "parse_elements (Suc n) s =
     (case parse_value n s of
        None \<Rightarrow> None
      | Some (v, r) \<Rightarrow>
          (case r of
             [] \<Rightarrow> None
           | c # r' \<Rightarrow>
               if c = CHR '']'' then Some ([v], r')
               else if c = CHR '','' then
                 (case r' of
                    [] \<Rightarrow> None
                  | sp # r'' \<Rightarrow>
                      if sp = CHR '' '' then
                        (case parse_elements n r'' of
                           None \<Rightarrow> None
                         | Some (vs, r3) \<Rightarrow> Some (v # vs, r3))
                      else None)
               else None))"
| "parse_members 0 s = None"
| "parse_members (Suc n) [] = None"
| "parse_members (Suc n) (q # s) =
     (if q = CHR 0x22 then
        (case parse_string s of
           None \<Rightarrow> None
         | Some (k, r) \<Rightarrow>
             (case r of
                colon # sp # r' \<Rightarrow>
                  if colon = CHR '':'' \<and> sp = CHR '' '' then
                    (case parse_value n r' of
                       None \<Rightarrow> None
                     | Some (v, r2) \<Rightarrow>
                         (case r2 of
                            [] \<Rightarrow> None
                          | c # r3 \<Rightarrow>
                              if c = CHR ''}'' then Some ([(k, v)], r3)
                              else if c = CHR '','' then
                                (case r3 of
                                   [] \<Rightarrow> None
                                 | sp' # r4 \<Rightarrow>
                                     if sp' = CHR '' '' then
                                       (case parse_members n r4 of
                                          None \<Rightarrow> None
                                        | Some (kvs, r5) \<Rightarrow> Some ((k, v) # kvs, r5))
                                     else None)
                              else None))
                  else None
              | _ \<Rightarrow> None))
      else None)"

text \<open>The whole text must be one value.\<close>

definition json_loads :: "string \<Rightarrow> py_exception + json" where
  "json_loads s =
     (case parse_value (length s) s of
        Some (v, []) \<Rightarrow> Inr v
      | _ \<Rightarrow> Inl (Raised ''JSONDecodeError''))"

text \<open>
  Modelled from the spec: the document of a message, field by field. A rule is a blob of
  text made by \<open>rule_blob\<close> (the rule's own \<^verbatim>\<open>to_aws_json()\<close>).
\<close>

definition BankedSignal_to_aws :: "banked_signal \<Rightarrow> json" where
  "BankedSignal_to_aws signal =
     JObject [(''signal_id'', JString (signal_id signal)),
              (''bank_id'', JString (bank_id signal)),
              (''bank_name'', JString (bank_name signal))]"

definition ActionMessage_to_aws :: "('r \<Rightarrow> string) \<Rightarrow> 'r action_message \<Rightarrow> json" where
  "ActionMessage_to_aws rule_blob m =
     JObject [(''content_key'', JString (content_key m)),
              (''matched_hash'', JString (matched_hash m)),
              (''matching_banked_signals'', JArray (map BankedSignal_to_aws (matching_banked_signals m))),
              (''action_label'', JString (label_value (action_label m))),
              (''action_rules'', JArray (map (\<lambda>rule. JString (rule_blob rule)) (action_rules m)))]"

text \<open>Modelled from the spec: \<^verbatim>\<open>ActionMessage.to_aws_json\<close>, the document as text.\<close>

definition ActionMessage_to_aws_json :: "('r \<Rightarrow> string) \<Rightarrow> 'r action_message \<Rightarrow> string" where
  "ActionMessage_to_aws_json rule_blob m = json_dumps (ActionMessage_to_aws rule_blob m)"

text \<open>
  Reading a field of an object: a missing key is a \<^verbatim>\<open>KeyError\<close>, a value of another
  kind a \<^verbatim>\<open>TypeError\<close>. \<open>map_result\<close> reads a list and stops at the first item that
  fails.
\<close>

definition string_field :: "(string \<times> json) list \<Rightarrow> string \<Rightarrow> py_exception + string" where
  "string_field kvs k =
     (case map_of kvs k of
        None \<Rightarrow> Inl (KeyError k)
      | Some (JString s) \<Rightarrow> Inr s
      | Some _ \<Rightarrow> Inl (Raised ''TypeError''))"

definition array_field :: "(string \<times> json) list \<Rightarrow> string \<Rightarrow> py_exception + json list" where
  "array_field kvs k =
     (case map_of kvs k of
        None \<Rightarrow> Inl (KeyError k)
      | Some (JArray xs) \<Rightarrow> Inr xs
      | Some _ \<Rightarrow> Inl (Raised ''TypeError''))"

fun map_result :: "('a \<Rightarrow> py_exception + 'b) \<Rightarrow> 'a list \<Rightarrow> py_exception + 'b list" where
  "map_result f [] = Inr []"
| "map_result f (x # xs) =
     (case f x of
        Inl e \<Rightarrow> Inl e
      | Inr y \<Rightarrow> (case map_result f xs of Inl e \<Rightarrow> Inl e | Inr ys \<Rightarrow> Inr (y # ys)))"

definition BankedSignal_from_aws :: "json \<Rightarrow> py_exception + banked_signal" where
  "BankedSignal_from_aws j =
     (case j of
        JObject kvs \<Rightarrow>
          (case string_field kvs ''signal_id'' of
             Inl e \<Rightarrow> Inl e
           | Inr sid \<Rightarrow>
               (case string_field kvs ''bank_id'' of
                  Inl e \<Rightarrow> Inl e
                | Inr bid \<Rightarrow>
                    (case string_field kvs ''bank_name'' of
                       Inl e \<Rightarrow> Inl e
                     | Inr bname \<Rightarrow>
                         Inr \<lparr>signal_id = sid, bank_id = bid, bank_name = bname\<rparr>)))
      | _ \<Rightarrow> Inl (Raised ''TypeError''))"

definition rule_from_aws :: "(string \<Rightarrow> py_exception + 'r) \<Rightarrow> json \<Rightarrow> py_exception + 'r" where
  "rule_from_aws rule_of_blob j =
     (case j of JString blob \<Rightarrow> rule_of_blob blob | _ \<Rightarrow> Inl (Raised ''TypeError''))"

text \<open>
  Modelled from the spec: the message of a document; \<open>rule_of_blob\<close> reads one rule
  back from its blob and may raise.
\<close>

definition ActionMessage_from_aws ::
  "(string \<Rightarrow> py_exception + 'r) \<Rightarrow> json \<Rightarrow> py_exception + 'r action_message" where
  "ActionMessage_from_aws rule_of_blob j =
     (case j of
        JObject kvs \<Rightarrow>
          (case string_field kvs ''content_key'' of
             Inl e \<Rightarrow> Inl e
           | Inr key \<Rightarrow>
          (case string_field kvs ''matched_hash'' of
             Inl e \<Rightarrow> Inl e
           | Inr hash \<Rightarrow>
          (case array_field kvs ''matching_banked_signals'' of
             Inl e \<Rightarrow> Inl e
           | Inr signal_blobs \<Rightarrow>
          (case map_result BankedSignal_from_aws signal_blobs of
             Inl e \<Rightarrow> Inl e
           | Inr signals \<Rightarrow>
          (case string_field kvs ''action_label'' of
             Inl e \<Rightarrow> Inl e
           | Inr name \<Rightarrow>
          (case array_field kvs ''action_rules'' of
             Inl e \<Rightarrow> Inl e
           | Inr rule_blobs \<Rightarrow>
          (case map_result (rule_from_aws rule_of_blob) rule_blobs of
             Inl e \<Rightarrow> Inl e
           | Inr rules \<Rightarrow>
               Inr \<lparr>content_key = key, matched_hash = hash, matching_banked_signals = signals,
                    action_label = ActionLabel name, action_rules = rules\<rparr>)))))))
      | _ \<Rightarrow> Inl (Raised ''TypeError''))"

text \<open>
  Modelled from the spec: \<^verbatim>\<open>ActionMessage.from_aws_json\<close>; a text that does not parse
  raises, as does a document that is not a message.
\<close>

definition ActionMessage_from_aws_json ::
  "(string \<Rightarrow> py_exception + 'r) \<Rightarrow> string \<Rightarrow> py_exception + 'r action_message" where
  "ActionMessage_from_aws_json rule_of_blob body =
     (case json_loads body of
        Inl e \<Rightarrow> Inl e
      | Inr j \<Rightarrow> ActionMessage_from_aws rule_of_blob j)"

subsection \<open>A concrete deployment, for the scenarios\<close>

text \<open>
  The world outside the process in the scenarios: a clock, and the bodies an endpoint has
  been sent.
\<close>

record outside =
  clock :: timestamp
  posted :: "string list"

text \<open>A performer that posts the content key and the rule blobs of what it is given.\<close>

definition webhook_performer :: "(string action_message, outside) action_performer" where
  "webhook_performer m x =
     (None, x\<lparr>clock := clock x + 1, posted := posted x @ [content_key m] @ action_rules m\<rparr>)"

text \<open>A performer whose endpoint is down.\<close>

definition failing_performer :: "(string action_message, outside) action_performer" where
  "failing_performer m x = (Some (Raised ''ConnectionError''), x\<lparr>clock := clock x + 1\<rparr>)"

definition scenario_get ::
  "string \<Rightarrow> outside \<Rightarrow> (string action_message, outside) action_performer option" where
  "scenario_get name x =
     (if name = ''EnqueForReview'' then Some webhook_performer
      else if name = ''Failing'' then Some failing_performer
      else None)"

text \<open>The two signals of the module's main block.\<close>

definition banked_signals :: "banked_signal list" where
  "banked_signals =
     [\<lparr>signal_id = ''2862392437204724'', bank_id = ''bank 4'', bank_name = ''te''\<rparr>,
      \<lparr>signal_id = ''4194946153908639'', bank_id = ''bank 4'', bank_name = ''te''\<rparr>]"

definition scenario_message :: "string \<Rightarrow> string \<Rightarrow> string list \<Rightarrow> string action_message" where
  "scenario_message key name rules =
     \<lparr>content_key = key, matched_hash = ''hash'', matching_banked_signals = banked_signals,
      action_label = ActionLabel name, action_rules = rules\<rparr>"

text \<open>
  A deserialiser by table: three bodies that parse, every other body is malformed.
\<close>

definition scenario_from_aws_json :: "string \<Rightarrow> py_exception + string action_message" where
  "scenario_from_aws_json body =
     (if body = ''one'' then Inr (scenario_message ''key-1'' ''EnqueForReview'' [''rule-a''])
      else if body = ''three'' then Inr (scenario_message ''key-3'' ''EnqueForReview'' [''rule-b'', ''rule-c''])
      else if body = ''unregistered'' then Inr (scenario_message ''key-u'' ''Unregistered'' [''rule-u''])
      else if body = ''failing'' then Inr (scenario_message ''key-f'' ''Failing'' [''rule-f''])
      else Inl (Raised ''JSONDecodeError''))"

definition scenario_deps :: "(string, outside) deps" where
  "scenario_deps =
     \<lparr>from_aws_json = scenario_from_aws_json,
      rule_to_aws_json = (\<lambda>rule. rule),
      HMAConfig_initialize = (\<lambda>config_table x. x),
      ActionPerformer_get = scenario_get,
      put_item_error = (\<lambda>ev x. None),
      datetime_now = clock\<rparr>"

text \<open>The same deployment with a table that refuses every row.\<close>

definition refusing_deps :: "(string, outside) deps" where
  "refusing_deps = scenario_deps\<lparr>put_item_error := (\<lambda>ev x. Some (Raised ''ClientError''))\<rparr>"

text \<open>A fresh process whose environment names the configuration table, and one whose does not.\<close>

definition scenario_process :: "(string action_message, outside) process" where
  "scenario_process =
     \<lparr>environ = [''CONFIG_TABLE_NAME'' \<mapsto> ''hma-config''],
      init_cached = False,
      initialize_calls = [],
      perform_action_calls = [],
      records_table = [],
      ext = \<lparr>clock = 100, posted = []\<rparr>\<rparr>"

definition unconfigured_process :: "(string action_message, outside) process" where
  "unconfigured_process = scenario_process\<lparr>environ := Map.empty\<rparr>"

definition batch :: "string list \<Rightarrow> event" where
  "batch bodies = [''Records'' \<mapsto> map (\<lambda>body. [''body'' \<mapsto> body]) bodies]"

section \<open>Properties\<close>

text \<open>The equations that evaluate the scenarios.\<close>

lemmas scenario_simps =
  lambda_handler_def lambda_init_once_def lambda_init_once_body_def handle_record_def message_of_def
  perform_label_action_def write_to_table_def action_event_of_def Let_def
  scenario_deps_def scenario_get_def scenario_from_aws_json_def scenario_message_def
  scenario_process_def unconfigured_process_def batch_def webhook_performer_def
  failing_performer_def refusing_deps_def

subsection \<open>Dispatch\<close>

lemma perform_label_action_table:
  "records_table (snd (perform_label_action get m l w)) = records_table w"
  by (simp add: perform_label_action_def Let_def split: option.splits prod.splits)

text \<open>
  C4. For a label with no registered performer, \<^verbatim>\<open>perform_label_action\<close> returns
  \<^verbatim>\<open>False\<close>, raises nothing, calls no performer and leaves the whole state as it was.
\<close>

theorem perform_label_action_unregistered:
  assumes "get (label_value l) (ext w) = None"
  shows "perform_label_action get m l w = (Inr False, w)"
  using assms by (simp add: perform_label_action_def)

theorem perform_label_action_unregistered_witness:
  "scenario_get (label_value (ActionLabel ''Unregistered'')) (ext scenario_process) = None
   \<and> perform_label_action scenario_get (scenario_message ''key-u'' ''Unregistered'' [''rule-u''])
        (ActionLabel ''Unregistered'') scenario_process = (Inr False, scenario_process)"
proof -
  have h: "scenario_get (label_value (ActionLabel ''Unregistered'')) (ext scenario_process) = None"
    by (simp add: scenario_get_def)
  show ?thesis
    using h perform_label_action_unregistered
      [where get = scenario_get and l = "ActionLabel ''Unregistered''" and w = scenario_process
         and m = "scenario_message ''key-u'' ''Unregistered'' [''rule-u'']"]
    by simp
qed

text \<open>
  C1, as the code has it. For a label that resolves to a performer, the performer is
  called exactly once (the trace of calls grows by one entry), with the very message that
  \<^verbatim>\<open>perform_label_action\<close> was given, and where the performer returns, the dispatch
  returns \<^verbatim>\<open>True\<close>. The message is not cut down to a \<^verbatim>\<open>MatchMessage\<close>: its
  \<^verbatim>\<open>content_key\<close>, \<^verbatim>\<open>matched_hash\<close> and \<^verbatim>\<open>matching_banked_signals\<close> are
  those of the message because it is the message, label and rules included. Nothing else
  of the state changes but what the performer does outside.
\<close>

theorem perform_label_action_registered:
  assumes "get (label_value l) (ext w) = Some action_performer"
    and "action_performer m (ext w) = (None, x')"
  shows "perform_label_action get m l w =
           (Inr True,
            w\<lparr>perform_action_calls := perform_action_calls w @ [(label_value l, m)], ext := x'\<rparr>)"
  using assms by (simp add: perform_label_action_def Let_def)

theorem perform_label_action_registered_witness:
  "scenario_get (label_value (ActionLabel ''EnqueForReview'')) (ext scenario_process) =
     Some webhook_performer
   \<and> webhook_performer (scenario_message ''key'' ''EnqueForReview'' [''rule-a''])
         (ext scenario_process) = (None, \<lparr>clock = 101, posted = [''key'', ''rule-a'']\<rparr>)
   \<and> perform_label_action scenario_get (scenario_message ''key'' ''EnqueForReview'' [''rule-a''])
         (ActionLabel ''EnqueForReview'') scenario_process =
       (Inr True,
        scenario_process
          \<lparr>perform_action_calls :=
             [(''EnqueForReview'', scenario_message ''key'' ''EnqueForReview'' [''rule-a''])],
           ext := \<lparr>clock = 101, posted = [''key'', ''rule-a'']\<rparr>\<rparr>)"
proof -
  have resolved: "scenario_get (label_value (ActionLabel ''EnqueForReview'')) (ext scenario_process) =
      Some webhook_performer"
    by (simp add: scenario_get_def)
  have returns: "webhook_performer (scenario_message ''key'' ''EnqueForReview'' [''rule-a''])
      (ext scenario_process) = (None, \<lparr>clock = 101, posted = [''key'', ''rule-a'']\<rparr>)"
    by (simp add: webhook_performer_def scenario_process_def scenario_message_def)
  have "perform_action_calls scenario_process = []"
    by (simp add: scenario_process_def)
  then show ?thesis
    using resolved returns
      perform_label_action_registered
        [where get = scenario_get and l = "ActionLabel ''EnqueForReview''", OF resolved returns]
    by simp
qed

text \<open>
  C1 as stated fails: the performer is not given a view made of the three
  \<^verbatim>\<open>MatchMessage\<close> fields only. Two messages with the same three fields and the same
  label, differing in their rules, make a performer that reads
  \<^verbatim>\<open>match_message.action_rules\<close> post different bodies; the argument recorded for the
  call carries the label and the rules.
\<close>

theorem perform_label_action_view_counterexample:
  "match_message.truncate (scenario_message ''key'' ''EnqueForReview'' [''rule-a'']) =
   match_message.truncate (scenario_message ''key'' ''EnqueForReview'' [''rule-b''])
   \<and> posted (ext (snd (perform_label_action scenario_get
          (scenario_message ''key'' ''EnqueForReview'' [''rule-a''])
          (ActionLabel ''EnqueForReview'') scenario_process))) = [''key'', ''rule-a'']
   \<and> posted (ext (snd (perform_label_action scenario_get
          (scenario_message ''key'' ''EnqueForReview'' [''rule-b''])
          (ActionLabel ''EnqueForReview'') scenario_process))) = [''key'', ''rule-b'']
   \<and> map (\<lambda>(name, m). (action_label m, action_rules m))
         (perform_action_calls (snd (perform_label_action scenario_get
            (scenario_message ''key'' ''EnqueForReview'' [''rule-a''])
            (ActionLabel ''EnqueForReview'') scenario_process))) =
       [(ActionLabel ''EnqueForReview'', [''rule-a''])]"
  by (simp add: scenario_simps match_message.truncate_def)

text \<open>
  C5. Where the performer raises, the exception leaves \<^verbatim>\<open>perform_label_action\<close> as it
  is: the performer was called once and not again, and the records table is as it was.
\<close>

theorem perform_label_action_raises:
  assumes "get (label_value l) (ext w) = Some action_performer"
    and "action_performer m (ext w) = (Some e, x')"
  shows "perform_label_action get m l w =
           (Inl e,
            w\<lparr>perform_action_calls := perform_action_calls w @ [(label_value l, m)], ext := x'\<rparr>)
         \<and> records_table (snd (perform_label_action get m l w)) = records_table w"
  using assms by (simp add: perform_label_action_def Let_def)

theorem perform_label_action_raises_witness:
  "scenario_get (label_value (ActionLabel ''Failing'')) (ext scenario_process) =
     Some failing_performer
   \<and> failing_performer (scenario_message ''key-f'' ''Failing'' [''rule-f''])
         (ext scenario_process) = (Some (Raised ''ConnectionError''), \<lparr>clock = 101, posted = []\<rparr>)
   \<and> perform_label_action scenario_get (scenario_message ''key-f'' ''Failing'' [''rule-f''])
         (ActionLabel ''Failing'') scenario_process =
       (Inl (Raised ''ConnectionError''),
        scenario_process
          \<lparr>perform_action_calls := [(''Failing'', scenario_message ''key-f'' ''Failing'' [''rule-f''])],
           ext := \<lparr>clock = 101, posted = []\<rparr>\<rparr>)
   \<and> records_table (snd (perform_label_action scenario_get
         (scenario_message ''key-f'' ''Failing'' [''rule-f'']) (ActionLabel ''Failing'')
         scenario_process)) = []"
proof -
  have resolved: "scenario_get (label_value (ActionLabel ''Failing'')) (ext scenario_process) =
      Some failing_performer"
    by (simp add: scenario_get_def)
  have raises: "failing_performer (scenario_message ''key-f'' ''Failing'' [''rule-f''])
      (ext scenario_process) = (Some (Raised ''ConnectionError''), \<lparr>clock = 101, posted = []\<rparr>)"
    by (simp add: failing_performer_def scenario_process_def)
  have "perform_action_calls scenario_process = []" and "records_table scenario_process = []"
    by (simp_all add: scenario_process_def)
  then show ?thesis
    using resolved raises
      perform_label_action_raises
        [where get = scenario_get and l = "ActionLabel ''Failing''", OF resolved raises]
    by simp
qed

subsection \<open>The intake loop\<close>

lemma for_records_append:
  "for_records d (xs @ ys) w =
     (case for_records d xs w of
        (Inl e, w') \<Rightarrow> (Inl e, w')
      | (Inr u, w') \<Rightarrow> for_records d ys w')"
  by (induction xs arbitrary: w) (auto split: prod.splits sum.splits)




text \<open>
  C3, as the code has it. In a batch whose earlier records were handled, take a record
  that deserialises. Where its dispatch returns (whether it found a performer or not:
  \<open>found\<close> is either) and the table takes the row, exactly one row is added to the
  table: the message's own \<^verbatim>\<open>content_key\<close>, label value and serialised rules, at the
  time read after the dispatch; the dispatch itself adds none, and the loop goes on with
  the rest. Where the performer raises, no row is written for the message: the loop ends
  with that exception and the table is as the earlier records left it. The same holds
  where the table refuses the row.
\<close>

theorem for_records_writes_one_event:
  assumes before: "for_records d before w = (Inr (), w0)"
    and message: "message_of d sqs_record = Inr m"
  shows "(perform_label_action (ActionPerformer_get d) m (action_label m) w0 = (Inr found, w1) \<longrightarrow>
          put_item_error d (action_event_of d m (datetime_now d (ext w1))) (ext w1) = None \<longrightarrow>
          for_records d (before @ sqs_record # rest) w =
            for_records d rest
              (w1\<lparr>records_table :=
                    records_table w0 @ [action_event_of d m (datetime_now d (ext w1))]\<rparr>))
       \<and> (perform_label_action (ActionPerformer_get d) m (action_label m) w0 = (Inl e, w2) \<longrightarrow>
          for_records d (before @ sqs_record # rest) w = (Inl e, w2)
          \<and> records_table w2 = records_table w0)
       \<and> (perform_label_action (ActionPerformer_get d) m (action_label m) w0 = (Inr found, w1) \<longrightarrow>
          put_item_error d (action_event_of d m (datetime_now d (ext w1))) (ext w1) = Some e \<longrightarrow>
          for_records d (before @ sqs_record # rest) w = (Inl e, w1)
          \<and> records_table w1 = records_table w0)"
proof (intro conjI impI)
  assume dispatch: "perform_label_action (ActionPerformer_get d) m (action_label m) w0 = (Inr found, w1)"
    and written: "put_item_error d (action_event_of d m (datetime_now d (ext w1))) (ext w1) = None"
  have table: "records_table w1 = records_table w0"
    using perform_label_action_table [of "ActionPerformer_get d" m "action_label m" w0] dispatch
    by simp
  have "handle_record d sqs_record w0 =
          (Inr (), w1\<lparr>records_table :=
                   records_table w0 @ [action_event_of d m (datetime_now d (ext w1))]\<rparr>)"
    using message dispatch written table by (simp add: handle_record_def write_to_table_def)
  then show "for_records d (before @ sqs_record # rest) w =
      for_records d rest
        (w1\<lparr>records_table :=
              records_table w0 @ [action_event_of d m (datetime_now d (ext w1))]\<rparr>)"
    using before by (simp add: for_records_append)
next
  assume dispatch: "perform_label_action (ActionPerformer_get d) m (action_label m) w0 = (Inl e, w2)"
  have "handle_record d sqs_record w0 = (Inl e, w2)"
    using message dispatch by (simp add: handle_record_def)
  then show "for_records d (before @ sqs_record # rest) w = (Inl e, w2)"
    using before by (simp add: for_records_append)
  show "records_table w2 = records_table w0"
    using perform_label_action_table [of "ActionPerformer_get d" m "action_label m" w0] dispatch
    by simp
next
  assume dispatch: "perform_label_action (ActionPerformer_get d) m (action_label m) w0 = (Inr found, w1)"
    and refused: "put_item_error d (action_event_of d m (datetime_now d (ext w1))) (ext w1) = Some e"
  have "handle_record d sqs_record w0 = (Inl e, w1)"
    using message dispatch refused by (simp add: handle_record_def write_to_table_def)
  then show "for_records d (before @ sqs_record # rest) w = (Inl e, w1)"
    using before by (simp add: for_records_append)
  show "records_table w1 = records_table w0"
    using perform_label_action_table [of "ActionPerformer_get d" m "action_label m" w0] dispatch
    by simp
qed

text \<open>
  Three batches of three records: a performer found after a record whose label resolves
  to nothing (scenarios A and B of the specification), a performer that raises, a table
  that refuses the row.
\<close>

theorem for_records_writes_one_event_witness:
  "for_records scenario_deps [[''body'' \<mapsto> ''unregistered'']] scenario_process =
     (Inr (),
      scenario_process
        \<lparr>records_table :=
           [\<lparr>content_id = ''key-u'', performed_at = 100,
             event_action_label = ''Unregistered'', event_action_rules = [''rule-u'']\<rparr>]\<rparr>)
   \<and> message_of scenario_deps [''body'' \<mapsto> ''one''] =
       Inr (scenario_message ''key-1'' ''EnqueForReview'' [''rule-a''])
   \<and> for_records scenario_deps
         ([[''body'' \<mapsto> ''unregistered'']] @ [''body'' \<mapsto> ''one''] # [[''body'' \<mapsto> ''three'']])
         scenario_process =
       for_records scenario_deps [[''body'' \<mapsto> ''three'']]
         (scenario_process
            \<lparr>perform_action_calls :=
               [(''EnqueForReview'', scenario_message ''key-1'' ''EnqueForReview'' [''rule-a''])],
             records_table :=
               [\<lparr>content_id = ''key-u'', performed_at = 100,
                 event_action_label = ''Unregistered'', event_action_rules = [''rule-u'']\<rparr>,
                \<lparr>content_id = ''key-1'', performed_at = 101,
                 event_action_label = ''EnqueForReview'', event_action_rules = [''rule-a'']\<rparr>],
             ext := \<lparr>clock = 101, posted = [''key-1'', ''rule-a'']\<rparr>\<rparr>)
   \<and> message_of scenario_deps [''body'' \<mapsto> ''failing''] =
       Inr (scenario_message ''key-f'' ''Failing'' [''rule-f''])
   \<and> for_records scenario_deps
         ([[''body'' \<mapsto> ''one'']] @ [''body'' \<mapsto> ''failing''] # [[''body'' \<mapsto> ''three'']])
         scenario_process =
       (Inl (Raised ''ConnectionError''),
        scenario_process
          \<lparr>perform_action_calls :=
             [(''EnqueForReview'', scenario_message ''key-1'' ''EnqueForReview'' [''rule-a'']),
              (''Failing'', scenario_message ''key-f'' ''Failing'' [''rule-f''])],
           records_table :=
             [\<lparr>content_id = ''key-1'', performed_at = 101,
               event_action_label = ''EnqueForReview'', event_action_rules = [''rule-a'']\<rparr>],
           ext := \<lparr>clock = 102, posted = [''key-1'', ''rule-a'']\<rparr>\<rparr>)
   \<and> for_records refusing_deps
         ([] @ [''body'' \<mapsto> ''one''] # [[''body'' \<mapsto> ''three'']]) scenario_process =
       (Inl (Raised ''ClientError''),
        scenario_process
          \<lparr>perform_action_calls :=
             [(''EnqueForReview'', scenario_message ''key-1'' ''EnqueForReview'' [''rule-a''])],
           ext := \<lparr>clock = 101, posted = [''key-1'', ''rule-a'']\<rparr>\<rparr>)"
proof -
  let ?m1 = "scenario_message ''key-1'' ''EnqueForReview'' [''rule-a'']"
  let ?mf = "scenario_message ''key-f'' ''Failing'' [''rule-f'']"
  let ?row_u = "\<lparr>content_id = ''key-u'', performed_at = 100,
      event_action_label = ''Unregistered'', event_action_rules = [''rule-u'']\<rparr>"
  let ?row_1 = "\<lparr>content_id = ''key-1'', performed_at = 101,
      event_action_label = ''EnqueForReview'', event_action_rules = [''rule-a'']\<rparr>"
  txt \<open>A performer is found and the row is taken, in the middle of a batch.\<close>
  let ?a0 = "scenario_process\<lparr>records_table := [?row_u]\<rparr>"
  let ?a1 = "scenario_process
      \<lparr>perform_action_calls := [(''EnqueForReview'', ?m1)],
       records_table := [?row_u],
       ext := \<lparr>clock = 101, posted = [''key-1'', ''rule-a'']\<rparr>\<rparr>"
  have before_a: "for_records scenario_deps [[''body'' \<mapsto> ''unregistered'']] scenario_process =
      (Inr (), ?a0)"
    by (simp add: scenario_simps)
  have message_a: "message_of scenario_deps [''body'' \<mapsto> ''one''] = Inr ?m1"
    by (simp add: scenario_simps)
  have dispatch_a: "perform_label_action (ActionPerformer_get scenario_deps) ?m1 (action_label ?m1) ?a0 =
      (Inr True, ?a1)"
    by (simp add: scenario_simps)
  have written_a: "put_item_error scenario_deps
      (action_event_of scenario_deps ?m1 (datetime_now scenario_deps (ext ?a1))) (ext ?a1) = None"
    by (simp add: scenario_deps_def)
  have row_a: "action_event_of scenario_deps ?m1 (datetime_now scenario_deps (ext ?a1)) = ?row_1"
    by (simp add: scenario_simps)
  have found: "for_records scenario_deps
      ([[''body'' \<mapsto> ''unregistered'']] @ [''body'' \<mapsto> ''one''] # [[''body'' \<mapsto> ''three'']])
      scenario_process =
      for_records scenario_deps [[''body'' \<mapsto> ''three'']]
        (?a1\<lparr>records_table := records_table ?a0 @ [?row_1]\<rparr>)"
    using for_records_writes_one_event
      [where found = True and ?w1.0 = ?a1 and rest = "[[''body'' \<mapsto> ''three'']]",
       OF before_a message_a]
      dispatch_a written_a row_a
    by simp
  txt \<open>The performer raises, after a record that was handled.\<close>
  let ?b0 = "scenario_process
      \<lparr>perform_action_calls := [(''EnqueForReview'', ?m1)],
       records_table := [?row_1],
       ext := \<lparr>clock = 101, posted = [''key-1'', ''rule-a'']\<rparr>\<rparr>"
  let ?b2 = "scenario_process
      \<lparr>perform_action_calls := [(''EnqueForReview'', ?m1), (''Failing'', ?mf)],
       records_table := [?row_1],
       ext := \<lparr>clock = 102, posted = [''key-1'', ''rule-a'']\<rparr>\<rparr>"
  have before_b: "for_records scenario_deps [[''body'' \<mapsto> ''one'']] scenario_process = (Inr (), ?b0)"
    by (simp add: scenario_simps)
  have message_b: "message_of scenario_deps [''body'' \<mapsto> ''failing''] = Inr ?mf"
    by (simp add: scenario_simps)
  have dispatch_b: "perform_label_action (ActionPerformer_get scenario_deps) ?mf (action_label ?mf) ?b0 =
      (Inl (Raised ''ConnectionError''), ?b2)"
    by (simp add: scenario_simps)
  have raised: "for_records scenario_deps
      ([[''body'' \<mapsto> ''one'']] @ [''body'' \<mapsto> ''failing''] # [[''body'' \<mapsto> ''three'']])
      scenario_process = (Inl (Raised ''ConnectionError''), ?b2)"
    using for_records_writes_one_event
      [where e = "Raised ''ConnectionError''" and ?w2.0 = ?b2 and rest = "[[''body'' \<mapsto> ''three'']]",
       OF before_b message_b]
      dispatch_b
    by simp
  txt \<open>The table refuses the row.\<close>
  let ?c1 = "scenario_process
      \<lparr>perform_action_calls := [(''EnqueForReview'', ?m1)],
       ext := \<lparr>clock = 101, posted = [''key-1'', ''rule-a'']\<rparr>\<rparr>"
  have before_c: "for_records refusing_deps [] scenario_process = (Inr (), scenario_process)"
    by simp
  have message_c: "message_of refusing_deps [''body'' \<mapsto> ''one''] = Inr ?m1"
    by (simp add: scenario_simps)
  have dispatch_c: "perform_label_action (ActionPerformer_get refusing_deps) ?m1 (action_label ?m1)
      scenario_process = (Inr True, ?c1)"
    by (simp add: scenario_simps)
  have refused_c: "put_item_error refusing_deps
      (action_event_of refusing_deps ?m1 (datetime_now refusing_deps (ext ?c1))) (ext ?c1) =
      Some (Raised ''ClientError'')"
    by (simp add: refusing_deps_def)
  have refused: "for_records refusing_deps
      ([] @ [''body'' \<mapsto> ''one''] # [[''body'' \<mapsto> ''three'']]) scenario_process =
      (Inl (Raised ''ClientError''), ?c1)"
    using for_records_writes_one_event
      [where found = True and ?w1.0 = ?c1 and e = "Raised ''ClientError''"
         and rest = "[[''body'' \<mapsto> ''three'']]",
       OF before_c message_c]
      dispatch_c refused_c
    by simp
  have rows: "?a1\<lparr>records_table := records_table ?a0 @ [?row_1]\<rparr> =
      scenario_process
        \<lparr>perform_action_calls := [(''EnqueForReview'', ?m1)],
         records_table := [?row_u, ?row_1],
         ext := \<lparr>clock = 101, posted = [''key-1'', ''rule-a'']\<rparr>\<rparr>"
    by (simp add: scenario_process_def)
  show ?thesis
    using before_a message_a found message_b raised refused
    by (simp only: rows simp_thms)
qed


text \<open>
  C3 as stated fails: a message that deserialises and whose performer raises leaves no
  row; the handler raises before the write (scenario D, seen from the loop).
\<close>

theorem for_records_writes_one_event_counterexample:
  "message_of scenario_deps [''body'' \<mapsto> ''failing''] =
     Inr (scenario_message ''key-f'' ''Failing'' [''rule-f''])
   \<and> fst (lambda_handler scenario_deps (batch [''failing'']) scenario_process) =
       Inl (Raised ''ConnectionError'')
   \<and> records_table (snd (lambda_handler scenario_deps (batch [''failing'']) scenario_process)) = []"
  by (simp add: scenario_simps)

text \<open>
  What one record does to the table: nothing, and the record raised; or one row, built
  from the record's message.
\<close>

lemma handle_record_rows:
  "records_table (snd (handle_record d r w)) = records_table w \<and> fst (handle_record d r w) \<noteq> Inr ()
   \<or> (\<exists>m t. message_of d r = Inr m \<and> fst (handle_record d r w) = Inr ()
         \<and> records_table (snd (handle_record d r w)) = records_table w @ [action_event_of d m t])"
proof (cases "message_of d r")
  case (Inl e)
  then show ?thesis by (simp add: handle_record_def)
next
  case (Inr m)
  obtain res w1 where dispatch:
    "perform_label_action (ActionPerformer_get d) m (action_label m) w = (res, w1)"
    by (cases "perform_label_action (ActionPerformer_get d) m (action_label m) w")
  have table: "records_table w1 = records_table w"
    using perform_label_action_table [of "ActionPerformer_get d" m "action_label m" w] dispatch
    by simp
  show ?thesis
  proof (cases res)
    case (Inl e)
    then show ?thesis using Inr dispatch table by (simp add: handle_record_def)
  next
    case found: (Inr b)
    show ?thesis
    proof (cases "put_item_error d (action_event_of d m (datetime_now d (ext w1))) (ext w1)")
      case None
      then have "message_of d r = Inr m \<and> fst (handle_record d r w) = Inr ()
         \<and> records_table (snd (handle_record d r w)) =
             records_table w @ [action_event_of d m (datetime_now d (ext w1))]"
        using Inr dispatch table found by (simp add: handle_record_def write_to_table_def)
      then show ?thesis by blast
    next
      case (Some e)
      then show ?thesis
        using Inr dispatch table found by (simp add: handle_record_def write_to_table_def)
    qed
  qed
qed

lemma for_records_rows:
  "\<exists>ms ts. length ts = length ms
     \<and> map (message_of d) (take (length ms) rs) = map Inr ms
     \<and> length ms \<le> length rs
     \<and> records_table (snd (for_records d rs w)) =
         records_table w @ map2 (action_event_of d) ms ts"
proof (induction rs arbitrary: w)
  case Nil
  show ?case by simp
next
  case (Cons r rs)
  obtain res w' where step: "handle_record d r w = (res, w')"
    by (cases "handle_record d r w")
  consider (stop) "records_table w' = records_table w" "res \<noteq> Inr ()"
    | (row) m t where "message_of d r = Inr m" "res = Inr ()"
        "records_table w' = records_table w @ [action_event_of d m t]"
    using handle_record_rows [of d r w] step by auto
  then show ?case
  proof cases
    case stop
    then have "records_table (snd (for_records d (r # rs) w)) = records_table w"
      using step by (cases res) auto
    then have "length ([]::timestamp list) = length ([]::'a action_message list)
       \<and> map (message_of d) (take (length ([]::'a action_message list)) (r # rs)) = map Inr []
       \<and> length ([]::'a action_message list) \<le> length (r # rs)
       \<and> records_table (snd (for_records d (r # rs) w)) =
           records_table w @ map2 (action_event_of d) [] []"
      by simp
    then show ?thesis by blast
  next
    case row
    obtain ms ts where rest: "length ts = length ms"
        "map (message_of d) (take (length ms) rs) = map Inr ms"
        "length ms \<le> length rs"
        "records_table (snd (for_records d rs w')) =
           records_table w' @ map2 (action_event_of d) ms ts"
      using Cons.IH [of w'] by blast
    have "length (t # ts) = length (m # ms)
       \<and> map (message_of d) (take (length (m # ms)) (r # rs)) = map Inr (m # ms)
       \<and> length (m # ms) \<le> length (r # rs)
       \<and> records_table (snd (for_records d (r # rs) w)) =
           records_table w @ map2 (action_event_of d) (m # ms) (t # ts)"
      using row rest step by simp
    then show ?thesis by blast
  qed
qed

lemma lambda_init_once_frame:
  "records_table (snd (lambda_init_once d w)) = records_table w"
  "perform_action_calls (snd (lambda_init_once d w)) = perform_action_calls w"
  by (simp_all add: lambda_init_once_def lambda_init_once_body_def split: option.splits)

lemma lambda_handler_rows:
  assumes "event ''Records'' = Some rs"
  shows "\<exists>ms ts. length ts = length ms
     \<and> map (message_of d) (take (length ms) rs) = map Inr ms
     \<and> records_table (snd (lambda_handler d event w)) =
         records_table w @ map2 (action_event_of d) ms ts"
proof -
  obtain r w0 where init: "lambda_init_once d w = (r, w0)"
    by (cases "lambda_init_once d w")
  have frame: "records_table w0 = records_table w"
    using lambda_init_once_frame(1) [of d w] init by simp
  show ?thesis
  proof (cases r)
    case (Inl e)
    then have "records_table (snd (lambda_handler d event w)) = records_table w"
      using init frame by (simp add: lambda_handler_def)
    then have "length ([]::timestamp list) = length ([]::'a action_message list)
       \<and> map (message_of d) (take (length ([]::'a action_message list)) rs) = map Inr []
       \<and> records_table (snd (lambda_handler d event w)) =
           records_table w @ map2 (action_event_of d) [] []"
      by simp
    then show ?thesis by blast
  next
    case (Inr u)
    obtain ms ts where rows: "length ts = length ms"
        "map (message_of d) (take (length ms) rs) = map Inr ms"
        "records_table (snd (for_records d rs w0)) =
           records_table w0 @ map2 (action_event_of d) ms ts"
      using for_records_rows [of d rs w0] by blast
    have "records_table (snd (lambda_handler d event w)) = records_table (snd (for_records d rs w0))"
      using init Inr assms by (simp add: lambda_handler_def split: prod.splits sum.splits)
    then show ?thesis
      using rows frame by metis
  qed
qed

text \<open>
  C8. Whatever the batch and however the invocation ends, the table keeps its rows and
  the rows added are those of the messages of a prefix of the batch, one row a message,
  in order; the \<^verbatim>\<open>action_rules\<close> of each row is the list of the
  \<^verbatim>\<open>to_aws_json()\<close> of each rule of its message, rule by rule, in order and of the
  same length.
\<close>

theorem recorded_rules_are_serialized_one_by_one:
  assumes "event ''Records'' = Some rs"
  shows "\<exists>ms. map (message_of d) (take (length ms) rs) = map Inr ms
     \<and> take (length (records_table w)) (records_table (snd (lambda_handler d event w))) =
         records_table w
     \<and> map event_action_rules
         (drop (length (records_table w)) (records_table (snd (lambda_handler d event w)))) =
       map (\<lambda>m. map (rule_to_aws_json d) (action_rules m)) ms"
proof -
  obtain ms ts where rows: "length ts = length ms"
      "map (message_of d) (take (length ms) rs) = map Inr ms"
      "records_table (snd (lambda_handler d event w)) =
         records_table w @ map2 (action_event_of d) ms ts"
    using lambda_handler_rows [where event = event and d = d and w = w, OF assms] by blast
  have rules: "map event_action_rules (map2 (action_event_of d) ms ts) =
      map (\<lambda>m. map (rule_to_aws_json d) (action_rules m)) ms"
    using rows(1)
  proof (induction ms arbitrary: ts)
    case Nil
    then show ?case by simp
  next
    case (Cons m ms)
    then obtain t ts' where "ts = t # ts'" by (cases ts) auto
    then show ?case using Cons by (simp add: action_event_of_def)
  qed
  have "map (message_of d) (take (length ms) rs) = map Inr ms
     \<and> take (length (records_table w)) (records_table (snd (lambda_handler d event w))) =
         records_table w
     \<and> map event_action_rules
         (drop (length (records_table w)) (records_table (snd (lambda_handler d event w)))) =
       map (\<lambda>m. map (rule_to_aws_json d) (action_rules m)) ms"
    using rows rules by simp
  then show ?thesis by blast
qed

theorem recorded_rules_are_serialized_one_by_one_witness:
  "batch [''one'', ''three''] ''Records'' = Some [[''body'' \<mapsto> ''one''], [''body'' \<mapsto> ''three'']]
   \<and> (\<exists>ms. map (message_of scenario_deps) (take (length ms) [[''body'' \<mapsto> ''one''], [''body'' \<mapsto> ''three'']]) =
          map Inr ms
     \<and> take (length (records_table scenario_process))
         (records_table (snd (lambda_handler scenario_deps (batch [''one'', ''three'']) scenario_process))) =
         records_table scenario_process
     \<and> map event_action_rules
         (drop (length (records_table scenario_process))
            (records_table (snd (lambda_handler scenario_deps (batch [''one'', ''three'']) scenario_process)))) =
       map (\<lambda>m. map (rule_to_aws_json scenario_deps) (action_rules m)) ms)
   \<and> map event_action_rules
        (records_table (snd (lambda_handler scenario_deps (batch [''one'', ''three'']) scenario_process))) =
      [[''rule-a''], [''rule-b'', ''rule-c'']]"
proof -
  have records: "batch [''one'', ''three''] ''Records'' =
      Some [[''body'' \<mapsto> ''one''], [''body'' \<mapsto> ''three'']]"
    by (simp add: batch_def)
  have rows: "map event_action_rules
        (records_table (snd (lambda_handler scenario_deps (batch [''one'', ''three'']) scenario_process))) =
      [[''rule-a''], [''rule-b'', ''rule-c'']]"
    by (simp add: scenario_simps)
  show ?thesis
    using records rows
      recorded_rules_are_serialized_one_by_one
        [where event = "batch [''one'', ''three'']" and d = scenario_deps and w = scenario_process,
         OF records]
    by blast
qed

subsection \<open>Initialisation\<close>

lemma lambda_init_once_twice:
  "snd (lambda_init_once d (snd (lambda_init_once d w))) = snd (lambda_init_once d w)"
  by (simp add: lambda_init_once_def lambda_init_once_body_def split: option.splits)

text \<open>
  C7. The state after two or more calls of \<^verbatim>\<open>lambda_init_once\<close> in a row is the state
  after one: the same labels resolve, and \<^verbatim>\<open>HMAConfig.initialize\<close> has been called no
  more often than by the first call.
\<close>

theorem lambda_init_once_idempotent:
  "lambda_init_once_times d (Suc (Suc n)) w = lambda_init_once_times d (Suc 0) w
   \<and> resolvable d (lambda_init_once_times d (Suc (Suc n)) w) =
       resolvable d (lambda_init_once_times d (Suc 0) w)
   \<and> initialize_calls (lambda_init_once_times d (Suc (Suc n)) w) =
       initialize_calls (lambda_init_once_times d (Suc 0) w)"
proof -
  have "lambda_init_once_times d (Suc (Suc n)) w = lambda_init_once_times d (Suc 0) w"
  proof (induction n)
    case 0
    show ?case by (simp add: lambda_init_once_twice)
  next
    case (Suc n)
    have "lambda_init_once_times d (Suc (Suc (Suc n))) w =
            snd (lambda_init_once d (lambda_init_once_times d (Suc (Suc n)) w))"
      by simp
    also have "\<dots> = snd (lambda_init_once d (snd (lambda_init_once d w)))"
      using Suc.IH by simp
    also have "\<dots> = lambda_init_once_times d (Suc 0) w"
      by (simp add: lambda_init_once_twice)
    finally show ?case .
  qed
  then show ?thesis by simp
qed

theorem lambda_init_once_idempotent_witness:
  "initialize_calls (lambda_init_once_times scenario_deps (Suc (Suc (Suc 0))) scenario_process) =
     [''hma-config'']
   \<and> lambda_init_once_times scenario_deps (Suc (Suc (Suc 0))) scenario_process =
       lambda_init_once_times scenario_deps (Suc 0) scenario_process"
proof -
  have "initialize_calls (lambda_init_once_times scenario_deps (Suc 0) scenario_process) =
      [''hma-config'']"
    by (simp add: scenario_simps)
  then show ?thesis
    using lambda_init_once_idempotent [of scenario_deps "Suc 0" scenario_process] by simp
qed

subsection \<open>What the handler returns\<close>

lemma lambda_init_once_outcome:
  "fst (lambda_init_once d w) =
     (if init_cached w \<or> environ w ''CONFIG_TABLE_NAME'' \<noteq> None then Inr ()
      else Inl (KeyError ''CONFIG_TABLE_NAME''))"
  by (auto simp add: lambda_init_once_def lambda_init_once_body_def split: option.splits)

text \<open>
  C9, as the code has it. With no record, \<^verbatim>\<open>lambda_handler\<close> calls no performer and
  writes no row; it returns \<^verbatim>\<open>{"action_performed": "true"}\<close> where
  \<^verbatim>\<open>lambda_init_once\<close> returns, that is where its result is cached or the environment has
  \<^verbatim>\<open>CONFIG_TABLE_NAME\<close>, and raises the \<^verbatim>\<open>KeyError\<close> of the subscript otherwise.
\<close>

theorem lambda_handler_no_records:
  assumes "event ''Records'' = Some []"
  shows "perform_action_calls (snd (lambda_handler d event w)) = perform_action_calls w
    \<and> records_table (snd (lambda_handler d event w)) = records_table w
    \<and> fst (lambda_handler d event w) =
        (if init_cached w \<or> environ w ''CONFIG_TABLE_NAME'' \<noteq> None
         then Inr [(''action_performed'', ''true'')]
         else Inl (KeyError ''CONFIG_TABLE_NAME''))"
proof -
  obtain r w0 where init: "lambda_init_once d w = (r, w0)"
    by (cases "lambda_init_once d w")
  have frame: "records_table w0 = records_table w" "perform_action_calls w0 = perform_action_calls w"
    using lambda_init_once_frame [of d w] init by simp_all
  have outcome: "r = (if init_cached w \<or> environ w ''CONFIG_TABLE_NAME'' \<noteq> None then Inr ()
      else Inl (KeyError ''CONFIG_TABLE_NAME''))"
    using lambda_init_once_outcome [of d w] init by simp
  show ?thesis
    using assms init frame outcome
    by (cases r) (auto simp: lambda_handler_def split: if_splits)
qed

theorem lambda_handler_no_records_witness:
  "batch [] ''Records'' = Some []
   \<and> perform_action_calls (snd (lambda_handler scenario_deps (batch []) scenario_process)) = []
   \<and> records_table (snd (lambda_handler scenario_deps (batch []) scenario_process)) = []
   \<and> fst (lambda_handler scenario_deps (batch []) scenario_process) =
       Inr [(''action_performed'', ''true'')]"
proof -
  have records: "batch [] ''Records'' = Some []"
    by (simp add: batch_def)
  have "perform_action_calls scenario_process = []" "records_table scenario_process = []"
    "\<not> init_cached scenario_process"
    "environ scenario_process ''CONFIG_TABLE_NAME'' = Some ''hma-config''"
    by (simp_all add: scenario_process_def)
  then show ?thesis
    using records
      lambda_handler_no_records
        [where event = "batch []" and d = scenario_deps and w = scenario_process, OF records]
    by simp
qed

text \<open>
  C9 as stated fails: in a process whose environment lacks \<^verbatim>\<open>CONFIG_TABLE_NAME\<close>, the
  handler given no record raises and returns nothing.
\<close>

theorem lambda_handler_no_records_counterexample:
  "batch [] ''Records'' = Some []
   \<and> fst (lambda_handler scenario_deps (batch []) unconfigured_process) =
       Inl (KeyError ''CONFIG_TABLE_NAME'')"
  by (simp add: scenario_simps)

text \<open>
  C10. Whenever \<^verbatim>\<open>lambda_handler\<close> returns, it returns the one-entry dictionary
  \<^verbatim>\<open>{"action_performed": "true"}\<close>, whatever the batch and whatever the dispatches found.
\<close>

theorem lambda_handler_returns:
  assumes "lambda_handler d event w = (Inr r, w')"
  shows "r = [(''action_performed'', ''true'')]"
  using assms
  by (auto simp: lambda_handler_def split: prod.splits sum.splits option.splits)

theorem lambda_handler_returns_witness:
  "(\<exists>r. fst (lambda_handler scenario_deps (batch [''one'', ''unregistered'', ''three''])
            scenario_process) = Inr r)
   \<and> fst (lambda_handler scenario_deps (batch [''one'', ''unregistered'', ''three''])
            scenario_process) = Inr [(''action_performed'', ''true'')]"
proof -
  obtain res w' where run:
    "lambda_handler scenario_deps (batch [''one'', ''unregistered'', ''three'']) scenario_process =
       (res, w')"
    by (cases "lambda_handler scenario_deps (batch [''one'', ''unregistered'', ''three''])
          scenario_process")
  have "fst (lambda_handler scenario_deps (batch [''one'', ''unregistered'', ''three''])
      scenario_process) \<noteq> Inl (Raised ''JSONDecodeError'')
    \<and> (\<exists>r. fst (lambda_handler scenario_deps (batch [''one'', ''unregistered'', ''three''])
      scenario_process) = Inr r)"
    by (simp add: scenario_simps)
  then obtain r where returned: "res = Inr r"
    using run by auto
  have "r = [(''action_performed'', ''true'')]"
    using lambda_handler_returns [of scenario_deps _ scenario_process r w'] run returned by simp
  then show ?thesis
    using run returned by simp
qed

subsection \<open>The wire format\<close>

lemma parse_string_escape: "parse_string (escape s @ CHR 0x22 # rest) = Some (s, rest)"
  by (induction s) auto

lemma json_dumps_start:
  "\<exists>c cs. json_dumps j = c # cs \<and> c \<noteq> CHR '']'' \<and> c \<noteq> CHR ''}''"
  by (cases j) (auto simp: quoted_def)

lemma join_Cons2: "ys \<noteq> [] \<Longrightarrow> join (x # ys) = x @ '', '' @ join ys"
  by (cases ys) auto

lemma parse_elements_join:
  assumes "\<And>x n rest. x \<in> set xs \<Longrightarrow> length (json_dumps x) \<le> n \<Longrightarrow>
             parse_value n (json_dumps x @ rest) = Some (x, rest)"
    and "xs \<noteq> []"
    and "length (join (map json_dumps xs)) < k"
  shows "parse_elements k (join (map json_dumps xs) @ CHR '']'' # rest) = Some (xs, rest)"
  using assms
proof (induction xs arbitrary: k)
  case Nil
  then show ?case by simp
next
  case (Cons x xs)
  obtain k' where k: "k = Suc k'"
    using Cons.prems(3) by (cases k) auto
  show ?case
  proof (cases "xs = []")
    case True
    have "parse_value k' (json_dumps x @ CHR '']'' # rest) = Some (x, CHR '']'' # rest)"
      using Cons.prems(1) [of x k'] Cons.prems(3) True k by simp
    then show ?thesis using True k by simp
  next
    case False
    have shape: "join (map json_dumps (x # xs)) =
        json_dumps x @ '', '' @ join (map json_dumps xs)"
      using False join_Cons2 [of "map json_dumps xs" "json_dumps x"] by simp
    have first: "parse_value k' (json_dumps x @ '', '' @ join (map json_dumps xs) @ CHR '']'' # rest) =
        Some (x, '', '' @ join (map json_dumps xs) @ CHR '']'' # rest)"
      using Cons.prems(1) [of x k'] Cons.prems(3) shape k by simp
    have others: "parse_elements k' (join (map json_dumps xs) @ CHR '']'' # rest) = Some (xs, rest)"
      using Cons.IH [of k'] Cons.prems(1) Cons.prems(3) False shape k by simp
    show ?thesis
      using first others shape k by simp
  qed
qed

lemma parse_members_join:
  assumes "\<And>k v n rest. (k, v) \<in> set kvs \<Longrightarrow> length (json_dumps v) \<le> n \<Longrightarrow>
             parse_value n (json_dumps v @ rest) = Some (v, rest)"
    and "kvs \<noteq> []"
    and "length (join (map (\<lambda>(k, v). quoted k @ '': '' @ json_dumps v) kvs)) < n"
  shows "parse_members n (join (map (\<lambda>(k, v). quoted k @ '': '' @ json_dumps v) kvs) @ CHR ''}'' # rest) =
           Some (kvs, rest)"
  using assms
proof (induction kvs arbitrary: n)
  case Nil
  then show ?case by simp
next
  case (Cons kv kvs)
  obtain k v where kv: "kv = (k, v)"
    by (cases kv)
  obtain n' where n: "n = Suc n'"
    using Cons.prems(3) by (cases n) auto
  let ?members = "join (map (\<lambda>(k, v). quoted k @ '': '' @ json_dumps v) kvs)"
  show ?case
  proof (cases "kvs = []")
    case True
    have "parse_value n' (json_dumps v @ CHR ''}'' # rest) = Some (v, CHR ''}'' # rest)"
      using Cons.prems(1) [of k v n'] Cons.prems(3) True n kv by (simp add: quoted_def)
    then show ?thesis
      using True n kv parse_string_escape [of k "'': '' @ json_dumps v @ CHR ''}'' # rest"]
      by (simp add: quoted_def)
  next
    case False
    have shape: "join (map (\<lambda>(k, v). quoted k @ '': '' @ json_dumps v) (kv # kvs)) =
        quoted k @ '': '' @ json_dumps v @ '', '' @ ?members"
      using False kv
        join_Cons2 [of "map (\<lambda>(k, v). quoted k @ '': '' @ json_dumps v) kvs"
                       "quoted k @ '': '' @ json_dumps v"]
      by simp
    have first: "parse_value n' (json_dumps v @ '', '' @ ?members @ CHR ''}'' # rest) =
        Some (v, '', '' @ ?members @ CHR ''}'' # rest)"
      using Cons.prems(1) [of k v n'] Cons.prems(3) shape n kv by (simp add: quoted_def)
    have shorter: "length ?members < n'"
      using Cons.prems(3) shape n by (simp add: quoted_def)
    have others: "parse_members n' (?members @ CHR ''}'' # rest) = Some (kvs, rest)"
    proof (rule Cons.IH)
      show "parse_value m (json_dumps v' @ rest') = Some (v', rest')"
        if "(k', v') \<in> set kvs" "length (json_dumps v') \<le> m" for k' v' m rest'
        using that Cons.prems(1) [of k' v' m rest'] by simp
      show "kvs \<noteq> []" by (rule False)
      show "length ?members < n'" by (rule shorter)
    qed
    show ?thesis
      using first others shape n kv
        parse_string_escape [of k "'': '' @ json_dumps v @ '', '' @ ?members @ CHR ''}'' # rest"]
      by (simp add: quoted_def)
  qed
qed

lemma parse_value_json_dumps:
  "length (json_dumps j) \<le> n \<Longrightarrow> parse_value n (json_dumps j @ rest) = Some (j, rest)"
proof (induction j arbitrary: n rest)
  case (JString s)
  then obtain n' where "n = Suc n'"
    by (cases n) (auto simp: quoted_def)
  then show ?case
    using parse_string_escape [of s rest] by (simp add: quoted_def)
next
  case (JArray xs)
  then obtain n' where n: "n = Suc n'"
    by (cases n) auto
  show ?case
  proof (cases "xs = []")
    case True
    then show ?thesis using n by simp
  next
    case False
    then obtain x xs' where xs: "xs = x # xs'"
      by (cases xs) auto
    obtain c cs where start: "join (map json_dumps xs) = c # cs" "c \<noteq> CHR '']''"
      using json_dumps_start [of x] xs by (cases xs') auto
    have "parse_elements n' (join (map json_dumps xs) @ CHR '']'' # rest) = Some (xs, rest)"
      using parse_elements_join [of xs n' rest] JArray.IH JArray.prems False n by simp
    then show ?thesis
      using n start by simp
  qed
next
  case (JObject kvs)
  then obtain n' where n: "n = Suc n'"
    by (cases n) auto
  let ?members = "join (map (\<lambda>(k, v). quoted k @ '': '' @ json_dumps v) kvs)"
  show ?case
  proof (cases "kvs = []")
    case True
    then show ?thesis using n by simp
  next
    case False
    then obtain k v kvs' where kvs: "kvs = (k, v) # kvs'"
      by (cases kvs) auto
    obtain cs where start: "?members = CHR 0x22 # cs"
      using kvs by (cases kvs') (auto simp: quoted_def)
    have inner: "\<And>k v n rest. (k, v) \<in> set kvs \<Longrightarrow> length (json_dumps v) \<le> n \<Longrightarrow>
        parse_value n (json_dumps v @ rest) = Some (v, rest)"
      using JObject.IH by fastforce
    have "parse_members n' (?members @ CHR ''}'' # rest) = Some (kvs, rest)"
      using parse_members_join [of kvs n' rest] inner JObject.prems False n by simp
    then show ?thesis
      using n start by simp
  qed
qed

lemma json_loads_json_dumps: "json_loads (json_dumps j) = Inr j"
  using parse_value_json_dumps [of j "length (json_dumps j)" "[]"]
  by (simp add: json_loads_def)

lemma map_result_inverse:
  assumes "\<And>x. x \<in> set xs \<Longrightarrow> g (f x) = Inr x"
  shows "map_result g (map f xs) = Inr xs"
  using assms by (induction xs) auto

lemma BankedSignal_from_to_aws: "BankedSignal_from_aws (BankedSignal_to_aws signal) = Inr signal"
  by (simp add: BankedSignal_from_aws_def BankedSignal_to_aws_def string_field_def)

lemma ActionMessage_from_to_aws:
  assumes "\<And>rule. rule_of_blob (rule_blob rule) = Inr rule"
  shows "ActionMessage_from_aws rule_of_blob (ActionMessage_to_aws rule_blob m) = Inr m"
proof -
  have signals: "map_result BankedSignal_from_aws (map BankedSignal_to_aws (matching_banked_signals m)) =
      Inr (matching_banked_signals m)"
    by (rule map_result_inverse) (rule BankedSignal_from_to_aws)
  have rules: "map_result (rule_from_aws rule_of_blob)
      (map (\<lambda>rule. JString (rule_blob rule)) (action_rules m)) = Inr (action_rules m)"
    by (rule map_result_inverse) (simp add: rule_from_aws_def assms)
  show ?thesis
    using signals rules
    by (simp add: ActionMessage_from_aws_def ActionMessage_to_aws_def string_field_def
        array_field_def)
qed

text \<open>
  C6. Where each rule reads back from its own blob, an action message written to the wire
  and read back is the message, equal in all its fields: for any list of rules (empty,
  of one element, of several) and any list of signals, the non-empty ones of the claim
  among them.
\<close>

theorem ActionMessage_aws_json_round_trip:
  assumes "\<And>rule. rule_of_blob (rule_blob rule) = Inr rule"
  shows "ActionMessage_from_aws_json rule_of_blob (ActionMessage_to_aws_json rule_blob m) = Inr m"
  using ActionMessage_from_to_aws [of rule_of_blob rule_blob m, OF assms]
  by (simp add: ActionMessage_from_aws_json_def ActionMessage_to_aws_json_def
      json_loads_json_dumps)

theorem ActionMessage_aws_json_round_trip_witness:
  "(\<forall>rule::string. (Inr ((\<lambda>r. r) rule) :: py_exception + string) = Inr rule)
   \<and> ActionMessage_from_aws_json Inr
         (ActionMessage_to_aws_json (\<lambda>r. r)
            (scenario_message ''key'' ''EnqueForReview'' [''rule-a'', ''rule-b''])) =
       Inr (scenario_message ''key'' ''EnqueForReview'' [''rule-a'', ''rule-b''])
   \<and> matching_banked_signals (scenario_message ''key'' ''EnqueForReview'' [''rule-a'', ''rule-b'']) \<noteq> []"
proof -
  have blobs: "\<And>rule::string. (Inr ((\<lambda>r. r) rule) :: py_exception + string) = Inr rule"
    by simp
  have "matching_banked_signals (scenario_message ''key'' ''EnqueForReview'' [''rule-a'', ''rule-b'']) \<noteq> []"
    by (simp add: scenario_message_def banked_signals_def)
  then show ?thesis
    using ActionMessage_aws_json_round_trip
      [where rule_of_blob = Inr and rule_blob = "\<lambda>r. r"
         and m = "scenario_message ''key'' ''EnqueForReview'' [''rule-a'', ''rule-b'']", OF blobs]
    by simp
qed

end
